theory Spec2Isabelle
  imports Complex_Main
begin

section \<open>The quantized elementwise multiply kernel\<close>

text \<open>
  The development embeds the function \<open>multiply\<close> of the notebook
  \<open>quantization_computation.ipynb\<close> (cell 3, lines 142 to 164):
  \<^verbatim>\<open>
  def multiply(tensor1, tensor2, output_tensor, datatype=np.int32):
    real_scale = tensor1.scale * tensor2.scale / output_tensor.scale
    multipler_float, shift = np.frexp(real_scale)
    if datatype == np.int32:
      multiplier_shift = 31
    elif datatype == np.int16:
      multiplier_shift = 15
    else:
      assert False
    multiplier = datatype(multipler_float * (2 ** multiplier_shift))

    for i in range(tensor1.value.size):
      lhs_value = datatype(tensor1.value.ravel()[i])
      lhs_value -= tensor1.zero_point
      rhs_value = datatype(tensor2.value.ravel()[i])
      rhs_value -= tensor2.zero_point
      # We need to be careful about the overflow issue when the datatype is int16
      temp = datatype(lhs_value * rhs_value)
      product = saturate_rounding_doubling_multiply(temp, multiplier, datatype)
      output = apply_shift(product, shift)
      output += output_tensor.zero_point
      output = np.int8(min(max(output, -128), 127))
      output_tensor.value.ravel()[i] = output
  \<close>
  Scales are floating-point numbers in the notebook. A finite floating-point number is a
  rational number, and \<open>frexp\<close>, the multiplication of a mantissa by a power of two and the
  conversion to an integer are exact on it, so scales are modelled as real numbers; the
  rounding of the product and of the quotient of the three scales, infinities and NaN
  are outside the model.
\<close>

subsection \<open>Data model\<close>

text \<open>The exceptions of the kernel. The first three are raised by Python and NumPy in
  the code of \<open>multiply\<close>; \<open>DomainError\<close> and \<open>ShapeMismatchError\<close> are the two error
  kinds of the specification.\<close>

datatype error =
    AssertionError
  | IndexError
  | ZeroDivisionError
  | DomainError
  | ShapeMismatchError

text \<open>The \<open>datatype\<close> argument: \<open>np.int32\<close>, \<open>np.int16\<close>, or anything else (the
  \<open>else\<close> branch of the kernel).\<close>

datatype dtype = Int32 | Int16 | OtherType

text \<open>Modelled from the spec: the class \<open>Tensor\<close> of the module \<open>quantization\<close> is
  not among the sources. A tensor is a flat value buffer with a scale and a zero point
  (section 3 of the specification). The buffer is a NumPy array, a mutable object that
  several tensors may share, so a tensor holds the address of its array; field
  \<open>value_ref\<close> stands for the attribute \<open>value\<close> of the code.\<close>

record tensor =
  value_ref :: nat
  scale :: real
  zero_point :: int

text \<open>The heap: the tensor objects and the arrays, by address. An array is given by its
  flattened contents, what \<open>ravel()\<close> views.\<close>

record heap =
  tensors :: "nat \<Rightarrow> tensor"
  arrays :: "nat \<Rightarrow> int list"

subsection \<open>Library functions\<close>

text \<open>\<open>frexp\<close> of the C library and of NumPy: the exponent \<open>e\<close> of a positive \<open>x\<close> is
  the integer with \<open>2 ^ (e - 1) \<le> x < 2 ^ e\<close>, found here by halving and doubling.\<close>

function frexp_exponent :: "real \<Rightarrow> int" where
  "frexp_exponent x =
     (if x \<le> 0 then 0
      else if 1 \<le> x then frexp_exponent (x / 2) + 1
      else if x < 1 / 2 then frexp_exponent (2 * x) - 1
      else 0)"
  by pat_completeness auto
termination
proof (relation "measure (\<lambda>x. nat \<bar>\<lfloor>log 2 x\<rfloor> + 1\<bar>)")
  show "wf (measure (\<lambda>x. nat \<bar>\<lfloor>log 2 x\<rfloor> + 1\<bar>))" by simp
next
  fix x :: real
  assume "\<not> x \<le> 0" and "1 \<le> x"
  then have "log 2 (x / 2) = log 2 x - 1" and "0 \<le> log 2 x"
    by (simp_all add: log_divide)
  then have "\<lfloor>log 2 (x / 2)\<rfloor> = \<lfloor>log 2 x\<rfloor> - 1" and "0 \<le> \<lfloor>log 2 x\<rfloor>"
    by simp_all
  then show "(x / 2, x) \<in> measure (\<lambda>x. nat \<bar>\<lfloor>log 2 x\<rfloor> + 1\<bar>)"
    by simp
next
  fix x :: real
  assume "\<not> x \<le> 0" and "\<not> 1 \<le> x" and "x < 1 / 2"
  then have "log 2 (2 * x) = log 2 x + 1" and "log 2 x < log 2 (1 / 2)"
    by (simp_all add: log_mult)
  moreover have "log 2 (1 / 2) = - 1"
    by (simp add: log_divide)
  ultimately have "\<lfloor>log 2 (2 * x)\<rfloor> = \<lfloor>log 2 x\<rfloor> + 1" and "\<lfloor>log 2 x\<rfloor> < - 1"
    by (simp_all add: floor_less_iff)
  then show "(2 * x, x) \<in> measure (\<lambda>x. nat \<bar>\<lfloor>log 2 x\<rfloor> + 1\<bar>)"
    by simp
qed

declare frexp_exponent.simps [simp del]

text \<open>\<open>np.frexp(x)\<close> returns the mantissa and the exponent, \<open>x = mantissa * 2 ** exponent\<close>;
  the mantissa has the sign of \<open>x\<close> and a magnitude in \<open>[0.5, 1)\<close>, and \<open>frexp(0) = (0, 0)\<close>.\<close>

definition frexp :: "real \<Rightarrow> real \<times> int" where
  "frexp x =
     (if x = 0 then (0, 0)
      else let e = frexp_exponent \<bar>x\<bar> in (x / 2 powi e, e))"

text \<open>The conversion of a floating-point number to a NumPy integer type truncates
  towards zero.\<close>

definition float_to_int :: "real \<Rightarrow> int" where
  "float_to_int r = (if 0 \<le> r then \<lfloor>r\<rfloor> else \<lceil>r\<rceil>)"

text \<open>Two's complement wrap-around to \<open>N\<close> bits: the arithmetic of the NumPy integer
  types.\<close>

definition wrap :: "nat \<Rightarrow> int \<Rightarrow> int" where
  "wrap N x = (x + 2 ^ (N - 1)) mod 2 ^ N - 2 ^ (N - 1)"

fun bits :: "dtype \<Rightarrow> nat" where
  "bits Int32 = 32"
| "bits Int16 = 16"

text \<open>\<open>datatype(x)\<close> on an integer, and the arithmetic at that type.\<close>

definition cast :: "dtype \<Rightarrow> int \<Rightarrow> int" where
  "cast dt x = wrap (bits dt) x"

definition in_range :: "nat \<Rightarrow> int \<Rightarrow> bool" where
  "in_range N x \<longleftrightarrow> - (2 ^ (N - 1)) \<le> x \<and> x \<le> 2 ^ (N - 1) - 1"

subsection \<open>The helpers of \<open>quantization_utils\<close>\<close>

text \<open>Modelled from the spec: \<open>saturate_rounding_doubling_multiply\<close> is defined in the
  module \<open>quantization_utils\<close>, which is not among the sources. Section 4.2: with
  \<open>p = a * b\<close> at double width, the result is \<open>round(p / 2^(N-1))\<close>, rounding half up on
  the magnitude, then clamped to \<open>[-2^(N-1), 2^(N-1)-1]\<close>; inputs outside the signed
  range of width \<open>N\<close> are a \<open>DomainError\<close>.\<close>

definition rounded_high_half :: "int \<Rightarrow> nat \<Rightarrow> int" where
  "rounded_high_half p N =
     (let q = (\<bar>p\<bar> + 2 ^ (N - 2)) div 2 ^ (N - 1) in if 0 \<le> p then q else - q)"

definition multiply_high :: "int \<Rightarrow> int \<Rightarrow> nat \<Rightarrow> int" where
  "multiply_high a b N =
     min (max (rounded_high_half (a * b) N) (- (2 ^ (N - 1)))) (2 ^ (N - 1) - 1)"

definition saturate_rounding_doubling_multiply :: "int \<Rightarrow> int \<Rightarrow> nat \<Rightarrow> error + int" where
  "saturate_rounding_doubling_multiply a b N =
     (if in_range N a \<and> in_range N b then Inr (multiply_high a b N) else Inl DomainError)"

text \<open>Modelled from the spec: \<open>apply_shift\<close> is defined in \<open>quantization_utils\<close> too.
  Section 4.3: a shift \<open>\<ge> 0\<close> is an exact left shift; a shift \<open>< 0\<close> is a right shift by
  its magnitude, rounding half away from zero (the bias \<open>2^(|shift|-1)\<close> is added to
  the magnitude before the shift); no saturation.\<close>

definition apply_shift :: "int \<Rightarrow> int \<Rightarrow> int" where
  "apply_shift v s =
     (if 0 \<le> s then v * 2 ^ nat s
      else let k = nat (- s); q = (\<bar>v\<bar> + 2 ^ (k - 1)) div 2 ^ k
           in if 0 \<le> v then q else - q)"

subsection \<open>The kernel\<close>

text \<open>Lines 144 to 151: the decomposition of the real scale into the integer
  multiplier and the shift.\<close>

fun multiplier_shift :: "dtype \<Rightarrow> error + nat" where
  "multiplier_shift Int32 = Inr 31"
| "multiplier_shift Int16 = Inr 15"
| "multiplier_shift OtherType = Inl AssertionError"

definition decompose :: "real \<Rightarrow> dtype \<Rightarrow> error + (int \<times> int)" where
  "decompose real_scale dt =
     (let (multipler_float, shift) = frexp real_scale in
      case multiplier_shift dt of
        Inl e \<Rightarrow> Inl e
      | Inr ms \<Rightarrow> Inr (float_to_int (multipler_float * 2 ^ ms), shift))"

text \<open>Reading and writing one element of a flattened array; an index past the end
  raises \<open>IndexError\<close>.\<close>

definition ravel_get :: "int list \<Rightarrow> nat \<Rightarrow> error + int" where
  "ravel_get xs i = (if i < length xs then Inr (xs ! i) else Inl IndexError)"

definition ravel_set :: "nat \<Rightarrow> nat \<Rightarrow> int \<Rightarrow> heap \<Rightarrow> error option \<times> heap" where
  "ravel_set a i v h =
     (if i < length (arrays h a)
      then (None, h\<lparr>arrays := (arrays h)(a := (arrays h a)[i := v])\<rparr>)
      else (Some IndexError, h))"

text \<open>Lines 154 to 164: the body of the loop, at index \<open>i\<close>. The tensors are given by
  their addresses; the result is the exception raised, if any, and the heap.\<close>

definition multiply_body ::
  "nat \<Rightarrow> nat \<Rightarrow> nat \<Rightarrow> dtype \<Rightarrow> int \<Rightarrow> int \<Rightarrow> nat \<Rightarrow> heap \<Rightarrow> error option \<times> heap" where
  "multiply_body tensor1 tensor2 output_tensor dt multiplier shift i h =
     (case ravel_get (arrays h (value_ref (tensors h tensor1))) i of
        Inl e \<Rightarrow> (Some e, h)
      | Inr l \<Rightarrow>
          let lhs_value = cast dt (cast dt l - zero_point (tensors h tensor1)) in
          (case ravel_get (arrays h (value_ref (tensors h tensor2))) i of
             Inl e \<Rightarrow> (Some e, h)
           | Inr r \<Rightarrow>
               let rhs_value = cast dt (cast dt r - zero_point (tensors h tensor2));
                   temp = cast dt (lhs_value * rhs_value)
               in (case saturate_rounding_doubling_multiply temp multiplier (bits dt) of
                     Inl e \<Rightarrow> (Some e, h)
                   | Inr product \<Rightarrow>
                       let output = apply_shift product shift
                                    + zero_point (tensors h output_tensor);
                           output = wrap 8 (min (max output (- 128)) 127)
                       in ravel_set (value_ref (tensors h output_tensor)) i output h)))"

text \<open>\<open>for i in range(n)\<close>: the body runs at each index in turn and an exception ends
  the loop.\<close>

fun for_each ::
  "nat list \<Rightarrow> (nat \<Rightarrow> heap \<Rightarrow> error option \<times> heap) \<Rightarrow> heap \<Rightarrow> error option \<times> heap" where
  "for_each [] body h = (None, h)"
| "for_each (i # is) body h =
     (case body i h of
        (Some e, h') \<Rightarrow> (Some e, h')
      | (None, h') \<Rightarrow> for_each is body h')"

text \<open>The kernel, lines 142 to 164. The scales are Python floats (the notebook computes
  \<open>out_scale = (6.0 + 7.5) / 256.0\<close>), so dividing by a zero output scale raises
  \<open>ZeroDivisionError\<close>. The input tensors are only read; the writes go to the array of
  the output tensor.\<close>

definition multiply :: "nat \<Rightarrow> nat \<Rightarrow> nat \<Rightarrow> dtype \<Rightarrow> heap \<Rightarrow> error option \<times> heap" where
  "multiply tensor1 tensor2 output_tensor dt h =
     (if scale (tensors h output_tensor) = 0 then (Some ZeroDivisionError, h)
      else
        let real_scale = scale (tensors h tensor1) * scale (tensors h tensor2)
                         / scale (tensors h output_tensor)
        in case decompose real_scale dt of
             Inl e \<Rightarrow> (Some e, h)
           | Inr (multiplier, shift) \<Rightarrow>
               for_each [0..<length (arrays h (value_ref (tensors h tensor1)))]
                 (multiply_body tensor1 tensor2 output_tensor dt multiplier shift) h)"

subsection \<open>The value written at one index\<close>

text \<open>What the body of the loop computes from the two elements it reads, when the
  multiply-high accepts its inputs.\<close>

definition element_value ::
  "dtype \<Rightarrow> int \<Rightarrow> int \<Rightarrow> int \<Rightarrow> int \<Rightarrow> int \<Rightarrow> int \<Rightarrow> int \<Rightarrow> int" where
  "element_value dt multiplier shift zl zr zo l r =
     (let temp = cast dt (cast dt (cast dt l - zl) * cast dt (cast dt r - zr))
      in min (max (apply_shift (multiply_high temp multiplier (bits dt)) shift + zo) (- 128)) 127)"

text \<open>The heap after the first \<open>k\<close> iterations of the loop: the first \<open>k\<close> positions
  of the output array hold the values computed from the elements the input arrays had
  on entry.\<close>

definition written ::
  "nat \<Rightarrow> nat \<Rightarrow> nat \<Rightarrow> dtype \<Rightarrow> int \<Rightarrow> int \<Rightarrow> heap \<Rightarrow> nat \<Rightarrow> heap" where
  "written tensor1 tensor2 output_tensor dt multiplier shift h k =
     (let t1 = tensors h tensor1; t2 = tensors h tensor2; out = tensors h output_tensor;
          f = (\<lambda>i. element_value dt multiplier shift (zero_point t1) (zero_point t2)
                 (zero_point out) (arrays h (value_ref t1) ! i) (arrays h (value_ref t2) ! i))
      in h\<lparr>arrays := (arrays h)
              (value_ref out := map f [0..<k] @ drop k (arrays h (value_ref out)))\<rparr>)"

subsection \<open>Example heaps\<close>

text \<open>A heap with the left-hand tensor at address 0, the right-hand tensor at address 1
  and the output tensor at address 2, each given by its scale, its zero point and the
  contents of its array (at addresses 10, 11 and 12).\<close>

definition example_heap ::
  "real \<times> int \<Rightarrow> real \<times> int \<Rightarrow> real \<times> int \<Rightarrow> int list \<Rightarrow> int list \<Rightarrow> int list \<Rightarrow> heap" where
  "example_heap q1 q2 q3 xs ys zs =
     \<lparr>tensors = (\<lambda>_. \<lparr>value_ref = 12, scale = fst q3, zero_point = snd q3\<rparr>)
        (0 := \<lparr>value_ref = 10, scale = fst q1, zero_point = snd q1\<rparr>,
         1 := \<lparr>value_ref = 11, scale = fst q2, zero_point = snd q2\<rparr>),
      arrays = (\<lambda>_. [])(10 := xs, 11 := ys, 12 := zs)\<rparr>"

text \<open>The same, with the output tensor sharing the array of the left-hand tensor (an
  in-place call).\<close>

definition example_heap_in_place ::
  "real \<times> int \<Rightarrow> real \<times> int \<Rightarrow> real \<times> int \<Rightarrow> int list \<Rightarrow> int list \<Rightarrow> heap" where
  "example_heap_in_place q1 q2 q3 xs ys =
     \<lparr>tensors = (\<lambda>_. \<lparr>value_ref = 10, scale = fst q3, zero_point = snd q3\<rparr>)
        (0 := \<lparr>value_ref = 10, scale = fst q1, zero_point = snd q1\<rparr>,
         1 := \<lparr>value_ref = 11, scale = fst q2, zero_point = snd q2\<rparr>),
      arrays = (\<lambda>_. [])(10 := xs, 11 := ys)\<rparr>"

section \<open>Properties of the library functions\<close>

lemma powi_two_pos: "0 < (2::real) powi e"
  by (simp add: power_int_def)

lemma powi_two_step: "(2::real) powi (e + 1) = 2 * 2 powi e"
  by (simp add: power_int_add)

lemma powi_two_pred: "2 * (2::real) powi (e - 1) = 2 powi e"
  using powi_two_step [of "e - 1"] by simp

lemma frexp_exponent_bounds:
  "0 < x \<Longrightarrow> 2 powi (frexp_exponent x - 1) \<le> x \<and> x < 2 powi (frexp_exponent x)"
proof (induction x rule: frexp_exponent.induct)
  case (1 x)
  show ?case
  proof (cases "1 \<le> x")
    case True
    then have e: "frexp_exponent x = frexp_exponent (x / 2) + 1"
      using "1.prems" by (subst frexp_exponent.simps) simp
    have "2 powi (frexp_exponent (x / 2) - 1) \<le> x / 2 \<and> x / 2 < 2 powi (frexp_exponent (x / 2))"
      using "1.IH"(1) "1.prems" True by simp
    then show ?thesis
      using powi_two_step [of "frexp_exponent (x / 2)"] powi_two_pred [of "frexp_exponent (x / 2)"]
      by (simp add: e)
  next
    case False
    show ?thesis
    proof (cases "x < 1 / 2")
      case True
      then have e: "frexp_exponent x = frexp_exponent (2 * x) - 1"
        using "1.prems" False by (subst frexp_exponent.simps) simp
      have ih: "2 powi (frexp_exponent (2 * x) - 1) \<le> 2 * x \<and> 2 * x < 2 powi (frexp_exponent (2 * x))"
        using "1.IH"(2) "1.prems" False True by simp
      have "2 * 2 powi (frexp_exponent (2 * x) - 1 - 1) = (2::real) powi (frexp_exponent (2 * x) - 1)"
        by (rule powi_two_pred)
      moreover have "2 * 2 powi (frexp_exponent (2 * x) - 1) = (2::real) powi (frexp_exponent (2 * x))"
        by (rule powi_two_pred)
      ultimately show ?thesis
        using ih by (simp add: e)
    next
      case nlt: False
      then have e: "frexp_exponent x = 0"
        using "1.prems" False by (subst frexp_exponent.simps) simp
      show ?thesis
        using False nlt by (simp add: e)
    qed
  qed
qed

lemma frexp_positive:
  assumes "0 < x" and "frexp x = (m, e)"
  shows "1 / 2 \<le> m" and "m < 1" and "x = m * 2 powi e"
proof -
  have e: "e = frexp_exponent x" and m: "m = x / 2 powi e"
    using assms by (auto simp add: frexp_def Let_def)
  have b: "2 powi (e - 1) \<le> x" "x < 2 powi e"
    using frexp_exponent_bounds [OF assms(1)] by (simp_all add: e)
  have p: "0 < (2::real) powi e" by (rule powi_two_pos)
  have "2 powi e / 2 \<le> x"
    using b(1) powi_two_pred [of e] by simp
  then show "1 / 2 \<le> m"
    using p by (simp add: m pos_le_divide_eq)
  show "m < 1"
    using b(2) p by (simp add: m)
  show "x = m * 2 powi e"
    using p by (simp add: m)
qed

lemma in_range_wrap: "0 < N \<Longrightarrow> in_range N (wrap N x)"
proof -
  assume "0 < N"
  then obtain n where N: "N = Suc n" by (cases N) auto
  have "0 \<le> (x + 2 ^ n) mod (2 * 2 ^ n)" and "(x + 2 ^ n) mod (2 * 2 ^ n) < 2 * 2 ^ n"
    by simp_all
  then show ?thesis
    by (simp add: in_range_def wrap_def N)
qed

lemma wrap_id: "0 < N \<Longrightarrow> in_range N x \<Longrightarrow> wrap N x = x"
proof -
  assume "0 < N" and r: "in_range N x"
  then obtain n where N: "N = Suc n" by (cases N) auto
  have "0 \<le> x + 2 ^ n" and "x + 2 ^ n < 2 * 2 ^ n"
    using r by (simp_all add: in_range_def N)
  then have "(x + 2 ^ n) mod (2 * 2 ^ n) = x + 2 ^ n"
    by simp
  then show ?thesis
    by (simp add: wrap_def N)
qed

lemma supported_bits:
  "multiplier_shift dt = Inr ms \<Longrightarrow> bits dt = Suc ms \<and> 0 < ms \<and> (dt = Int32 \<or> dt = Int16)"
  by (cases dt) auto

lemma in_range_cast: "multiplier_shift dt = Inr ms \<Longrightarrow> in_range (bits dt) (cast dt x)"
  using supported_bits [of dt ms] by (simp add: cast_def in_range_wrap)

lemma cast_id: "multiplier_shift dt = Inr ms \<Longrightarrow> in_range (bits dt) x \<Longrightarrow> cast dt x = x"
  using supported_bits [of dt ms] by (simp add: cast_def wrap_id)

lemma wrap8_clamp: "wrap 8 (min (max x (- 128)) 127) = min (max x (- 128)) 127"
  by (rule wrap_id) (simp_all add: in_range_def)


lemma frexp_mantissa_abs: "\<bar>fst (frexp x)\<bar> < 1"
proof (cases "x = 0")
  case True
  then show ?thesis by (simp add: frexp_def)
next
  case False
  then have "\<bar>x\<bar> < 2 powi (frexp_exponent \<bar>x\<bar>)"
    using frexp_exponent_bounds [of "\<bar>x\<bar>"] by simp
  moreover have "\<bar>fst (frexp x)\<bar> = \<bar>x\<bar> / 2 powi (frexp_exponent \<bar>x\<bar>)"
    using False powi_two_pos [of "frexp_exponent \<bar>x\<bar>"]
    by (simp add: frexp_def Let_def abs_divide)
  ultimately show ?thesis
    using powi_two_pos [of "frexp_exponent \<bar>x\<bar>"] by simp
qed

lemma float_to_int_bound:
  assumes "\<bar>r\<bar> < 2 ^ n"
  shows "- (2 ^ n) < float_to_int r" and "float_to_int r < 2 ^ n"
proof -
  have "r < 2 ^ n" and "- (2 ^ n) < r"
    using assms by (simp_all add: abs_less_iff)
  then have "\<lfloor>r\<rfloor> < 2 ^ n" and "- (2 ^ n) < \<lceil>r\<rceil>"
    by (simp_all add: floor_less_iff less_ceiling_iff)
  moreover have "0 \<le> r \<Longrightarrow> 0 \<le> \<lfloor>r\<rfloor>" and "\<not> 0 \<le> r \<Longrightarrow> \<lceil>r\<rceil> \<le> 0"
    by (simp_all add: ceiling_le_iff)
  moreover have "(0::int) < 2 ^ n"
    by simp
  ultimately show "- (2 ^ n) < float_to_int r" and "float_to_int r < 2 ^ n"
    unfolding float_to_int_def by (cases "0 \<le> r"; simp; linarith)+
qed

lemma decompose_in_range:
  assumes "decompose real_scale dt = Inr (multiplier, shift)"
  shows "in_range (bits dt) multiplier"
proof -
  obtain m e where f: "frexp real_scale = (m, e)" by (cases "frexp real_scale")
  obtain ms where ms: "multiplier_shift dt = Inr ms"
    using assms by (cases "multiplier_shift dt") (simp_all add: decompose_def f)
  then have mu: "multiplier = float_to_int (m * 2 ^ ms)"
    using assms by (simp add: decompose_def f)
  have "\<bar>m\<bar> < 1" using frexp_mantissa_abs [of real_scale] by (simp add: f)
  then have "\<bar>m * 2 ^ ms\<bar> < 2 ^ ms"
    by (simp add: abs_mult)
  then have "- (2 ^ ms) < multiplier" and "multiplier < 2 ^ ms"
    unfolding mu by (rule float_to_int_bound)+
  then show ?thesis
    using supported_bits [OF ms] by (simp add: in_range_def)
qed

section \<open>The loop\<close>

lemma for_each_append:
  "for_each (xs @ ys) body h =
     (case for_each xs body h of
        (Some e, h') \<Rightarrow> (Some e, h')
      | (None, h') \<Rightarrow> for_each ys body h')"
  by (induction xs arbitrary: h) (auto split: prod.splits option.splits)

lemma srdm_in_range:
  "in_range N a \<Longrightarrow> in_range N b \<Longrightarrow>
   saturate_rounding_doubling_multiply a b N = Inr (multiply_high a b N)"
  by (simp add: saturate_rounding_doubling_multiply_def)

lemma multiply_body_writes:
  assumes dt: "multiplier_shift dt = Inr ms"
    and mu: "in_range (bits dt) multiplier"
    and l: "i < length (arrays h (value_ref (tensors h tensor1)))"
    and r: "i < length (arrays h (value_ref (tensors h tensor2)))"
  shows "multiply_body tensor1 tensor2 output_tensor dt multiplier shift i h =
           ravel_set (value_ref (tensors h output_tensor)) i
             (element_value dt multiplier shift (zero_point (tensors h tensor1))
                (zero_point (tensors h tensor2)) (zero_point (tensors h output_tensor))
                (arrays h (value_ref (tensors h tensor1)) ! i)
                (arrays h (value_ref (tensors h tensor2)) ! i)) h"
  using l r
  by (simp add: multiply_body_def ravel_get_def element_value_def Let_def
      srdm_in_range [OF in_range_cast [OF dt] mu] wrap8_clamp)

lemma written_0: "written t1 t2 out dt mu sh h 0 = h"
  by (simp add: written_def)

lemma written_tensors: "tensors (written t1 t2 out dt mu sh h k) = tensors h"
  by (simp add: written_def Let_def)

lemma written_other:
  "a \<noteq> value_ref (tensors h out) \<Longrightarrow> arrays (written t1 t2 out dt mu sh h k) a = arrays h a"
  by (simp add: written_def Let_def)

lemma written_length:
  "k \<le> length (arrays h a) \<Longrightarrow> length (arrays (written t1 t2 out dt mu sh h k) a) = length (arrays h a)"
  by (auto simp add: written_def Let_def)

lemma written_nth_ge:
  "k \<le> i \<Longrightarrow> i < length (arrays h a) \<Longrightarrow> arrays (written t1 t2 out dt mu sh h k) a ! i = arrays h a ! i"
  by (auto simp add: written_def Let_def nth_append)

lemma written_nth_lt:
  "i < k \<Longrightarrow>
   arrays (written t1 t2 out dt mu sh h k) (value_ref (tensors h out)) ! i =
     element_value dt mu sh (zero_point (tensors h t1)) (zero_point (tensors h t2))
       (zero_point (tensors h out)) (arrays h (value_ref (tensors h t1)) ! i)
       (arrays h (value_ref (tensors h t2)) ! i)"
  by (simp add: written_def Let_def nth_append)

lemma written_Suc:
  assumes "k < length (arrays h (value_ref (tensors h out)))"
  shows "ravel_set (value_ref (tensors h out)) k
           (element_value dt mu sh (zero_point (tensors h t1)) (zero_point (tensors h t2))
              (zero_point (tensors h out)) (arrays h (value_ref (tensors h t1)) ! k)
              (arrays h (value_ref (tensors h t2)) ! k))
           (written t1 t2 out dt mu sh h k) =
         (None, written t1 t2 out dt mu sh h (Suc k))"
proof -
  have "(drop k xs)[0 := v] = v # drop (Suc k) xs" if "k < length xs" for xs :: "int list" and v
    using that by (simp add: Cons_nth_drop_Suc [symmetric])
  then show ?thesis
    using assms
    by (simp add: ravel_set_def written_def Let_def list_update_append)
qed

lemma for_each_prefix:
  assumes dt: "multiplier_shift dt = Inr ms"
    and mu: "in_range (bits dt) mu"
    and "k \<le> length (arrays h (value_ref (tensors h t1)))"
    and "k \<le> length (arrays h (value_ref (tensors h t2)))"
    and "k \<le> length (arrays h (value_ref (tensors h out)))"
  shows "for_each [0..<k] (multiply_body t1 t2 out dt mu sh) h =
           (None, written t1 t2 out dt mu sh h k)"
  using assms(3-5)
proof (induction k)
  case 0
  show ?case by (simp add: written_0)
next
  case (Suc k)
  let ?W = "written t1 t2 out dt mu sh h k"
  have ih: "for_each [0..<k] (multiply_body t1 t2 out dt mu sh) h = (None, ?W)"
    using Suc by simp
  have l: "k < length (arrays ?W (value_ref (tensors ?W t1)))"
    and r: "k < length (arrays ?W (value_ref (tensors ?W t2)))"
    using Suc.prems by (simp_all add: written_tensors written_length)
  have "multiply_body t1 t2 out dt mu sh k ?W = (None, written t1 t2 out dt mu sh h (Suc k))"
    using Suc.prems
    by (simp add: multiply_body_writes [OF dt mu l r] written_tensors written_nth_ge written_Suc)
  then show ?case
    by (simp add: for_each_append ih)
qed

lemma for_each_short_output:
  assumes dt: "multiplier_shift dt = Inr ms"
    and mu: "in_range (bits dt) mu"
    and m: "m = length (arrays h (value_ref (tensors h out)))"
    and l: "m < length (arrays h (value_ref (tensors h t1)))"
    and r: "m < length (arrays h (value_ref (tensors h t2)))"
    and n: "m < n"
  shows "for_each [0..<n] (multiply_body t1 t2 out dt mu sh) h =
           (Some IndexError, written t1 t2 out dt mu sh h m)"
proof -
  let ?W = "written t1 t2 out dt mu sh h m"
  have pre: "for_each [0..<m] (multiply_body t1 t2 out dt mu sh) h = (None, ?W)"
    using l r m by (intro for_each_prefix [OF dt mu]) simp_all
  have l': "m < length (arrays ?W (value_ref (tensors ?W t1)))"
    and r': "m < length (arrays ?W (value_ref (tensors ?W t2)))"
    using l r by (simp_all add: written_tensors written_length)
  have "length (arrays ?W (value_ref (tensors h out))) = m"
    using m by (simp add: written_length)
  then have "multiply_body t1 t2 out dt mu sh m ?W = (Some IndexError, ?W)"
    by (simp add: multiply_body_writes [OF dt mu l' r'] written_tensors ravel_set_def)
  moreover have "[0..<n] = [0..<m] @ m # [Suc m..<n]"
  proof -
    have "[0..<n] = [0..<m] @ [m..<n]"
      using n upt_add_eq_append [of 0 m "n - m"] by simp
    then show ?thesis
      using n by (simp add: upt_conv_Cons)
  qed
  ultimately show ?thesis
    by (simp add: for_each_append pre)
qed

lemma decompose_supported:
  "multiplier_shift dt = Inr ms \<Longrightarrow>
   decompose x dt = Inr (float_to_int (fst (frexp x) * 2 ^ ms), snd (frexp x))"
  by (simp add: decompose_def split: prod.splits)

lemma multiply_runs_loop:
  assumes "scale (tensors h out) \<noteq> 0"
    and "decompose (scale (tensors h t1) * scale (tensors h t2) / scale (tensors h out)) dt
           = Inr (mu, sh)"
  shows "multiply t1 t2 out dt h =
           for_each [0..<length (arrays h (value_ref (tensors h t1)))]
             (multiply_body t1 t2 out dt mu sh) h"
  using assms by (simp add: multiply_def)

lemma decompose_Inr_supported:
  "decompose x dt = Inr (mu, sh) \<Longrightarrow> \<exists>ms. multiplier_shift dt = Inr ms"
  by (cases dt) (simp_all add: decompose_def split: prod.splits)

lemma supported_decompose:
  "dt = Int32 \<or> dt = Int16 \<Longrightarrow> \<exists>mu sh. decompose x dt = Inr (mu, sh)"
  by (auto simp add: decompose_def split: prod.splits)

lemma multiply_completes:
  assumes d: "decompose (scale (tensors h t1) * scale (tensors h t2) / scale (tensors h out)) dt
                = Inr (mu, sh)"
    and s: "scale (tensors h out) \<noteq> 0"
    and l: "length (arrays h (value_ref (tensors h t1))) = n"
    and r: "n \<le> length (arrays h (value_ref (tensors h t2)))"
    and out: "n \<le> length (arrays h (value_ref (tensors h out)))"
  shows "multiply t1 t2 out dt h = (None, written t1 t2 out dt mu sh h n)"
proof -
  obtain ms where ms: "multiplier_shift dt = Inr ms"
    using decompose_Inr_supported [OF d] by blast
  show ?thesis
    using l r out
    by (simp add: multiply_runs_loop [OF s d]
        for_each_prefix [OF ms decompose_in_range [OF d]])
qed

lemma multiply_short_output_aux:
  assumes d: "decompose (scale (tensors h t1) * scale (tensors h t2) / scale (tensors h out)) dt
                = Inr (mu, sh)"
    and s: "scale (tensors h out) \<noteq> 0"
    and out: "length (arrays h (value_ref (tensors h out))) = m"
    and l: "m < length (arrays h (value_ref (tensors h t1)))"
    and r: "m < length (arrays h (value_ref (tensors h t2)))"
  shows "multiply t1 t2 out dt h = (Some IndexError, written t1 t2 out dt mu sh h m)"
proof -
  obtain ms where ms: "multiplier_shift dt = Inr ms"
    using decompose_Inr_supported [OF d] by blast
  show ?thesis
    using l r out
    by (simp add: multiply_runs_loop [OF s d]
        for_each_short_output [OF ms decompose_in_range [OF d]])
qed

section \<open>Auxiliary facts about the decomposition and the element value\<close>

lemma decompose_positive:
  assumes pos: "0 < real_scale"
    and ms: "multiplier_shift dt = Inr ms"
    and d: "decompose real_scale dt = Inr (multiplier, shift)"
  shows "frexp real_scale = (fst (frexp real_scale), shift)"
    and "real_scale = fst (frexp real_scale) * 2 powi shift"
    and "1 / 2 \<le> fst (frexp real_scale)"
    and "fst (frexp real_scale) < 1"
    and "multiplier = \<lfloor>fst (frexp real_scale) * 2 ^ ms\<rfloor>"
proof -
  have sh: "shift = snd (frexp real_scale)"
    and mu: "multiplier = float_to_int (fst (frexp real_scale) * 2 ^ ms)"
    using d by (simp_all add: decompose_supported [OF ms])
  show f: "frexp real_scale = (fst (frexp real_scale), shift)"
    by (simp add: sh)
  show "real_scale = fst (frexp real_scale) * 2 powi shift"
    and h: "1 / 2 \<le> fst (frexp real_scale)"
    and "fst (frexp real_scale) < 1"
    using frexp_positive [OF pos f] by simp_all
  then show "multiplier = \<lfloor>fst (frexp real_scale) * 2 ^ ms\<rfloor>"
    by (simp add: mu float_to_int_def)
qed

lemma frexp_nonpositive: "x \<le> 0 \<Longrightarrow> fst (frexp x) \<le> 0"
  using powi_two_pos [of "frexp_exponent \<bar>x\<bar>"]
  by (simp add: frexp_def Let_def divide_le_0_iff)

lemma float_to_int_nonpositive: "r \<le> 0 \<Longrightarrow> float_to_int r \<le> 0"
  by (simp add: float_to_int_def ceiling_le_iff)

lemma frexp_one: "frexp 1 = (1 / 2, 1)"
  by (simp add: frexp_def frexp_exponent.simps)

lemma decompose_one:
  "dt = Int32 \<or> dt = Int16 \<Longrightarrow> decompose 1 dt = Inr (2 ^ (bits dt - 2), 1)"
  by (auto simp add: decompose_def frexp_one float_to_int_def)

lemma half_round:
  fixes t c :: int
  assumes "0 < c"
  shows "(\<bar>t * c\<bar> + c) div (2 * c) = (\<bar>t\<bar> + 1) div 2"
proof -
  have "\<bar>t * c\<bar> + c = (\<bar>t\<bar> + 1) * c"
    using assms by (simp add: abs_mult algebra_simps)
  then show ?thesis
    using assms by simp
qed

lemma multiply_high_half:
  assumes dt: "dt = Int32 \<or> dt = Int16" and t: "in_range (bits dt) t"
  shows "multiply_high t (2 ^ (bits dt - 2)) (bits dt)
           = (if 0 \<le> t then (t + 1) div 2 else - ((1 - t) div 2))"
proof -
  have c: "(2::int) ^ (bits dt - 1) = 2 * 2 ^ (bits dt - 2)" and p: "(0::int) < 2 ^ (bits dt - 2)"
    using dt by auto
  have s: "0 \<le> t * 2 ^ (bits dt - 2) \<longleftrightarrow> 0 \<le> t"
    using p by (simp add: zero_le_mult_iff)
  have q: "rounded_high_half (t * 2 ^ (bits dt - 2)) (bits dt)
             = (if 0 \<le> t then (t + 1) div 2 else - ((1 - t) div 2))"
    unfolding rounded_high_half_def Let_def c s half_round [OF p]
    by (simp add: abs_if)
  have "- (2 * 2 ^ (bits dt - 2)) \<le> t" and "t \<le> 2 * 2 ^ (bits dt - 2) - 1"
    using t c by (simp_all add: in_range_def)
  then have "- (2 * 2 ^ (bits dt - 2)) \<le> (if 0 \<le> t then (t + 1) div 2 else - ((1 - t) div 2))"
    and "(if 0 \<le> t then (t + 1) div 2 else - ((1 - t) div 2)) \<le> 2 * 2 ^ (bits dt - 2) - 1"
    using p by (auto; linarith)+
  then show ?thesis
    unfolding multiply_high_def q c by simp
qed

lemma element_value_identity:
  assumes dt: "dt = Int32 \<or> dt = Int16"
    and "in_range (bits dt) l" and "in_range (bits dt) r" and lr: "in_range (bits dt) (l * r)"
  shows "element_value dt (2 ^ (bits dt - 2)) 1 0 0 0 l r
           = min (max (if even (l * r) then l * r else l * r + sgn (l * r)) (- 128)) 127"
proof -
  obtain ms where ms: "multiplier_shift dt = Inr ms"
    using dt by auto
  have "2 * (if 0 \<le> t then (t + 1) div 2 else - ((1 - t) div 2))
          = (if even t then t else t + sgn t)" for t :: int
    by (auto simp add: sgn_if elim!: evenE oddE)
  then show ?thesis
    using assms(2-)
    by (simp add: element_value_def Let_def cast_id [OF ms] multiply_high_half [OF dt lr]
        apply_shift_def mult.commute)
qed

section \<open>Arithmetic at the working width\<close>

lemma wrap_mod: "0 < N \<Longrightarrow> wrap N a mod 2 ^ N = a mod 2 ^ N"
proof -
  have "((a + 2 ^ (N - 1)) mod 2 ^ N - 2 ^ (N - 1)) mod 2 ^ N = (a + 2 ^ (N - 1) - 2 ^ (N - 1)) mod 2 ^ N"
    by (rule mod_diff_left_eq)
  then show ?thesis
    by (simp add: wrap_def)
qed

lemma wrap_cong: "a mod 2 ^ N = b mod 2 ^ N \<Longrightarrow> wrap N a = wrap N b"
proof -
  assume "a mod 2 ^ N = b mod 2 ^ N"
  then have "(a + 2 ^ (N - 1)) mod 2 ^ N = (b + 2 ^ (N - 1)) mod 2 ^ N"
    by (rule mod_add_cong) simp
  then show ?thesis
    by (simp add: wrap_def)
qed

lemma wrap_diff_left: "0 < N \<Longrightarrow> wrap N (wrap N a - b) = wrap N (a - b)"
  by (rule wrap_cong) (metis mod_diff_cong wrap_mod)

lemma wrap_mult: "0 < N \<Longrightarrow> wrap N (wrap N a * wrap N b) = wrap N (a * b)"
  by (rule wrap_cong) (metis mod_mult_cong wrap_mod)

lemma temp_at_width:
  assumes "multiplier_shift dt = Inr ms"
  shows "cast dt (cast dt (cast dt l - zl) * cast dt (cast dt r - zr))
           = cast dt ((l - zl) * (r - zr))"
proof -
  have N: "0 < bits dt"
    using supported_bits [OF assms] by simp
  show ?thesis
    by (simp add: cast_def wrap_diff_left [OF N] wrap_mult [OF N])
qed

section \<open>Evaluating the example heaps\<close>

lemma example_heap_tensors:
  "tensors (example_heap q1 q2 q3 xs ys zs) 0
     = \<lparr>value_ref = 10, scale = fst q1, zero_point = snd q1\<rparr>"
  "tensors (example_heap q1 q2 q3 xs ys zs) (Suc 0)
     = \<lparr>value_ref = 11, scale = fst q2, zero_point = snd q2\<rparr>"
  "tensors (example_heap q1 q2 q3 xs ys zs) 2
     = \<lparr>value_ref = 12, scale = fst q3, zero_point = snd q3\<rparr>"
  by (simp_all add: example_heap_def)

lemma example_heap_arrays:
  "arrays (example_heap q1 q2 q3 xs ys zs) 10 = xs"
  "arrays (example_heap q1 q2 q3 xs ys zs) 11 = ys"
  "arrays (example_heap q1 q2 q3 xs ys zs) 12 = zs"
  by (simp_all add: example_heap_def)

lemmas example_heap_simps = example_heap_tensors example_heap_arrays

lemmas element_defs =
  element_value_def cast_def wrap_def multiply_high_def rounded_high_half_def
  apply_shift_def saturate_rounding_doubling_multiply_def in_range_def Let_def

text \<open>An in-place call: the output tensor shares the array of the left-hand tensor.
  Each position is read before it is written, so the results are those of a call with a
  separate output array, and the shared array is overwritten.\<close>

lemma multiply_in_place_example:
  "fst (multiply 0 1 2 Int32 (example_heap_in_place (1, 0) (1, 0) (1, 0) [3, 5] [1, - 7])) = None
   \<and> arrays (snd (multiply 0 1 2 Int32
         (example_heap_in_place (1, 0) (1, 0) (1, 0) [3, 5] [1, - 7]))) 10 = [4, - 36]"
  by code_simp

section \<open>The claims\<close>

subsection \<open>C1\<close>

text \<open>
  \<^bold>\<open>C1.\<close> Let \<open>(multiplier, shift)\<close> be the decomposition of
  \<open>lhs.scale * rhs.scale / output.scale\<close>, computed once, and let the two input arrays
  and the output array have the same number \<open>n\<close> of elements (output scale not zero).
  Then \<open>multiply\<close> returns normally and, for every \<open>i < n\<close>, the output element at \<open>i\<close>
  is \<open>clamp(apply_shift(product, shift) + output.zero_point, -128, 127)\<close>, where
  \<open>product\<close> is the saturating rounding multiply-high of \<open>temp\<close> and the multiplier (it
  never fails), and \<open>temp\<close> is \<open>(lhs[i] - lhs.zero_point) * (rhs[i] - rhs.zero_point)\<close>
  computed at the working width: the exact product wrapped to \<open>N\<close> bits in two's
  complement. It is the exact product itself when, and only as far as, that product
  fits the width. The elements \<open>lhs[i]\<close> and \<open>rhs[i]\<close> are those the input arrays held
  on entry, also when the output array is one of the input arrays.
\<close>

theorem multiply_elementwise:
  fixes tensor1 tensor2 output_tensor :: nat and h :: heap and dt :: dtype
  defines "lhs \<equiv> tensors h tensor1"
    and "rhs \<equiv> tensors h tensor2"
    and "output \<equiv> tensors h output_tensor"
  defines "l \<equiv> \<lambda>i. arrays h (value_ref lhs) ! i"
    and "r \<equiv> \<lambda>i. arrays h (value_ref rhs) ! i"
  defines "temp \<equiv> \<lambda>i. cast dt (cast dt (cast dt (l i) - zero_point lhs)
                              * cast dt (cast dt (r i) - zero_point rhs))"
  assumes d: "decompose (scale lhs * scale rhs / scale output) dt = Inr (multiplier, shift)"
    and s: "scale output \<noteq> 0"
    and n: "length (arrays h (value_ref lhs)) = n"
      "length (arrays h (value_ref rhs)) = n"
      "length (arrays h (value_ref output)) = n"
    and i: "i < n"
  shows "fst (multiply tensor1 tensor2 output_tensor dt h) = None
       \<and> temp i = cast dt ((l i - zero_point lhs) * (r i - zero_point rhs))
       \<and> (in_range (bits dt) ((l i - zero_point lhs) * (r i - zero_point rhs))
          \<longrightarrow> temp i = (l i - zero_point lhs) * (r i - zero_point rhs))
       \<and> saturate_rounding_doubling_multiply (temp i) multiplier (bits dt)
           = Inr (multiply_high (temp i) multiplier (bits dt))
       \<and> arrays (snd (multiply tensor1 tensor2 output_tensor dt h)) (value_ref output) ! i
           = min (max (apply_shift (multiply_high (temp i) multiplier (bits dt)) shift
                       + zero_point output) (- 128)) 127"
proof -
  obtain ms where ms: "multiplier_shift dt = Inr ms"
    using decompose_Inr_supported [OF d] by blast
  have m: "multiply tensor1 tensor2 output_tensor dt h
             = (None, written tensor1 tensor2 output_tensor dt multiplier shift h n)"
    using d s n unfolding lhs_def rhs_def output_def by (intro multiply_completes) simp_all
  have p: "saturate_rounding_doubling_multiply (temp i) multiplier (bits dt)
             = Inr (multiply_high (temp i) multiplier (bits dt))"
    unfolding temp_def by (rule srdm_in_range [OF in_range_cast [OF ms] decompose_in_range [OF d]])
  have "arrays (snd (multiply tensor1 tensor2 output_tensor dt h)) (value_ref output) ! i
          = min (max (apply_shift (multiply_high (temp i) multiplier (bits dt)) shift
                      + zero_point output) (- 128)) 127"
    using i unfolding m lhs_def rhs_def output_def l_def r_def temp_def
    by (simp add: written_nth_lt element_value_def Let_def)
  moreover have t: "temp i = cast dt ((l i - zero_point lhs) * (r i - zero_point rhs))"
    unfolding temp_def by (rule temp_at_width [OF ms])
  moreover have "temp i = (l i - zero_point lhs) * (r i - zero_point rhs)"
    if "in_range (bits dt) ((l i - zero_point lhs) * (r i - zero_point rhs))"
    unfolding t using that by (rule cast_id [OF ms])
  ultimately show ?thesis
    using p by (simp add: m)
qed

text \<open>An instance, at width 32: scales 3/64, 1/128 and 1/16, zero points 2, 0 and -36;
  the elements 100 and -90 give \<open>temp = -8820\<close>, the product -6615, the shifted value
  -52 and the output -88.\<close>

theorem multiply_elementwise_witness:
  "fst (multiply 0 1 2 Int32
          (example_heap (3 / 64, 2) (1 / 128, 0) (1 / 16, - 36) [100, - 50] [- 90, 127] [0, 0]))
     = None
   \<and> decompose (3 / 64 * (1 / 128) / (1 / 16)) Int32 = Inr (1610612736, - 7)
   \<and> saturate_rounding_doubling_multiply ((100 - 2) * (- 90 - 0)) 1610612736 32 = Inr (- 6615)
   \<and> apply_shift (- 6615) (- 7) = - 52
   \<and> arrays (snd (multiply 0 1 2 Int32
          (example_heap (3 / 64, 2) (1 / 128, 0) (1 / 16, - 36) [100, - 50] [- 90, 127] [0, 0])))
         12 ! 0
       = - 88"
proof -
  let ?h = "example_heap (3 / 64, 2) (1 / 128, 0) (1 / 16, - 36) [100, - 50] [- 90, 127] [0, 0]"
  have d: "decompose (scale (tensors ?h 0) * scale (tensors ?h 1) / scale (tensors ?h 2)) Int32
             = Inr (1610612736, - 7)"
    by code_simp
  have s: "scale (tensors ?h 2) \<noteq> 0"
    and n: "length (arrays ?h (value_ref (tensors ?h 0))) = 2"
      "length (arrays ?h (value_ref (tensors ?h 1))) = 2"
      "length (arrays ?h (value_ref (tensors ?h 2))) = 2"
    by (simp_all add: example_heap_simps)
  have i: "(0::nat) < 2" by simp
  have e: "decompose (3 / 64 * (1 / 128) / (1 / 16)) Int32 = Inr (1610612736, - 7)"
    "saturate_rounding_doubling_multiply ((100 - 2) * (- 90 - 0)) 1610612736 32 = Inr (- 6615)"
    "apply_shift (- 6615) (- 7) = - 52"
    by code_simp+
  show ?thesis
    using multiply_elementwise [OF d s n i] e
    by (simp add: example_heap_simps element_defs)
qed

text \<open>With the exact product in place of the wrapped one the formula fails at width
  16, where the comment in the loop warns of the overflow. Elements 127 with zero points
  -128 give the differences 255 and the product 65025, outside the 16-bit range: the
  multiply-high of the specification rejects it, and its rounded high half would lead
  to the output 127. The kernel wraps the product to -511 and writes -2.\<close>

theorem exact_product_counterexample:
  "decompose (1 / 256 * 1 / 1) Int16 = Inr (16384, - 7)
   \<and> (127 - (- 128)) * (127 - (- 128)) = (65025 :: int)
   \<and> \<not> in_range 16 65025
   \<and> saturate_rounding_doubling_multiply 65025 16384 16 = Inl DomainError
   \<and> min (max (apply_shift (multiply_high 65025 16384 16) (- 7) + 0) (- 128)) 127 = 127
   \<and> cast Int16 65025 = - 511
   \<and> saturate_rounding_doubling_multiply (- 511) 16384 16 = Inr (- 256)
   \<and> min (max (apply_shift (- 256) (- 7) + 0) (- 128)) 127 = - 2
   \<and> fst (multiply 0 1 2 Int16
         (example_heap (1 / 256, - 128) (1, - 128) (1, 0) [127] [127] [0])) = None
   \<and> arrays (snd (multiply 0 1 2 Int16
         (example_heap (1 / 256, - 128) (1, - 128) (1, 0) [127] [127] [0]))) 12 ! 0 = - 2"
  by code_simp

subsection \<open>C2\<close>

text \<open>
  \<^bold>\<open>C2.\<close> For every working width \<open>N\<close>, the saturating rounding multiply-high of
  \<open>a = b = -2^(N-1)\<close>, the minimum of the width, returns \<open>2^(N-1) - 1\<close>, the maximum: the
  rounded high half of the product is at least \<open>2^(N-1)\<close>, one past the maximum, and it
  saturates.
\<close>

theorem saturation_boundary:
  "saturate_rounding_doubling_multiply (- (2 ^ (N - 1))) (- (2 ^ (N - 1))) N
     = Inr (2 ^ (N - 1) - 1)"
proof -
  have r: "in_range N (- (2 ^ (N - 1)))"
    by (simp add: in_range_def)
  have q: "(((2::int) ^ (N - 1)) * 2 ^ (N - 1) + 2 ^ (N - 2)) div 2 ^ (N - 1)
             = 2 ^ (N - 1) + 2 ^ (N - 2) div 2 ^ (N - 1)"
    by simp
  have "(0::int) \<le> 2 ^ (N - 2) div 2 ^ (N - 1)"
    by (simp add: pos_imp_zdiv_nonneg_iff)
  then have "2 ^ (N - 1) \<le> rounded_high_half (- (2 ^ (N - 1)) * - (2 ^ (N - 1))) N"
    using q by (simp add: rounded_high_half_def)
  then have "multiply_high (- (2 ^ (N - 1))) (- (2 ^ (N - 1))) N = 2 ^ (N - 1) - 1"
    by (simp add: multiply_high_def)
  then show ?thesis
    using r by (simp add: saturate_rounding_doubling_multiply_def)
qed

text \<open>The instances at the two working widths of the kernel.\<close>

theorem saturation_boundary_witness:
  "saturate_rounding_doubling_multiply (- 2147483648) (- 2147483648) 32 = Inr 2147483647
   \<and> saturate_rounding_doubling_multiply (- 32768) (- 32768) 16 = Inr 32767"
  using saturation_boundary [of 32] saturation_boundary [of 16] by simp

subsection \<open>C3\<close>

text \<open>
  \<^bold>\<open>C3.\<close> For every \<open>real_scale > 0\<close> and supported datatype of width \<open>N\<close>, the
  decomposition returns the shift and the mantissa of \<open>frexp\<close>, with
  \<open>real_scale = mantissa * 2^shift\<close> and \<open>mantissa\<close> in \<open>[0.5, 1)\<close>, and the multiplier
  is \<open>floor(mantissa * 2^(N-1))\<close>: the conversion to the integer type truncates, it
  does not round to nearest, and the shift is always the exponent of \<open>frexp\<close> (the
  multiplier is never halved, the shift never incremented).
\<close>

theorem decompose_mantissa_truncated:
  fixes real_scale :: real
  defines "mantissa \<equiv> fst (frexp real_scale)"
  assumes "0 < real_scale"
    and "dt = Int32 \<or> dt = Int16"
    and "decompose real_scale dt = Inr (multiplier, shift)"
  shows "frexp real_scale = (mantissa, shift)
       \<and> real_scale = mantissa * 2 powi shift
       \<and> 1 / 2 \<le> mantissa \<and> mantissa < 1
       \<and> multiplier = \<lfloor>mantissa * 2 ^ (bits dt - 1)\<rfloor>"
proof -
  obtain ms where ms: "multiplier_shift dt = Inr ms" and b: "bits dt - 1 = ms"
    using assms(3) by auto
  show ?thesis
    unfolding mantissa_def b
    using decompose_positive [OF assms(2) ms assms(4)] by blast
qed

text \<open>An instance, at width 16: \<open>real_scale = 65539 / 131072\<close> is its own mantissa, and
  \<open>mantissa * 2^15 = 16384.75\<close> is truncated to 16384.\<close>

theorem decompose_mantissa_truncated_witness:
  "frexp (65539 / 131072) = (65539 / 131072, 0)
   \<and> decompose (65539 / 131072) Int16 = Inr (16384, 0)
   \<and> (65539 / 131072 :: real) = 65539 / 131072 * 2 powi 0
   \<and> (16384 :: int) = \<lfloor>(65539 / 131072 :: real) * 2 ^ 15\<rfloor>"
proof -
  have p: "(0 :: real) < 65539 / 131072" and t: "Int16 = Int32 \<or> Int16 = Int16"
    by simp_all
  have d: "decompose (65539 / 131072) Int16 = Inr (16384, 0)"
    and f: "frexp (65539 / 131072) = (65539 / 131072, 0)"
    by code_simp+
  show ?thesis
    using decompose_mantissa_truncated [OF p t d] d by (simp add: f)
qed

text \<open>At the same input, rounding \<open>mantissa * 2^15\<close> to nearest gives 16385: the
  multiplier of the code, 16384, is not the rounded value.\<close>

theorem decompose_rounding_counterexample:
  "frexp (65539 / 131072) = (65539 / 131072, 0)
   \<and> decompose (65539 / 131072) Int16 = Inr (16384, 0)
   \<and> round ((65539 / 131072 :: real) * 2 ^ (bits Int16 - 1)) = 16385
   \<and> decompose (65539 / 131072) Int16
       \<noteq> Inr (round (fst (frexp (65539 / 131072)) * 2 ^ (bits Int16 - 1)),
              snd (frexp (65539 / 131072)))"
  by code_simp

subsection \<open>C4\<close>

text \<open>
  \<^bold>\<open>C4.\<close> For every \<open>real_scale > 0\<close> and width \<open>N\<close> in \<open>{16, 32}\<close>, the multiplier
  lies in \<open>[2^(N-2), 2^(N-1) - 1]\<close>, and \<open>multiplier / 2^(N-1) * 2^shift\<close> differs from
  \<open>real_scale\<close> by less than \<open>2^shift / 2^(N-1)\<close>, the weight of one unit in the last
  place of the multiplier.
\<close>

theorem decompose_multiplier_range:
  assumes "0 < real_scale"
    and "dt = Int32 \<or> dt = Int16"
    and "decompose real_scale dt = Inr (multiplier, shift)"
  shows "2 ^ (bits dt - 2) \<le> multiplier
       \<and> multiplier \<le> 2 ^ (bits dt - 1) - 1
       \<and> \<bar>real_scale - real_of_int multiplier / 2 ^ (bits dt - 1) * 2 powi shift\<bar>
           < 2 powi shift / 2 ^ (bits dt - 1)"
proof (intro conjI)
  obtain ms where ms: "multiplier_shift dt = Inr ms" and b: "bits dt - 1 = ms"
    and b2: "bits dt - 2 = ms - 1" and ms1: "ms = Suc (ms - 1)"
    using assms(2) by auto
  let ?m = "fst (frexp real_scale)"
  note dp = decompose_positive [OF assms(1) ms assms(3)]
  have mu: "multiplier = \<lfloor>?m * 2 ^ ms\<rfloor>" by (rule dp(5))
  have "2 ^ (ms - 1) \<le> ?m * 2 ^ ms"
    using dp(3) by (subst (2) ms1) (simp del: One_nat_def)
  then have "of_int (2 ^ (ms - 1)) \<le> ?m * 2 ^ ms"
    by simp
  then show "2 ^ (bits dt - 2) \<le> multiplier"
    unfolding mu b2 by (simp only: le_floor_iff)
  have "?m * 2 ^ ms < 2 ^ ms"
    using dp(4) by simp
  then have "?m * 2 ^ ms < of_int (2 ^ ms)"
    by simp
  then have "multiplier < 2 ^ ms"
    unfolding mu by (simp only: floor_less_iff)
  then show "multiplier \<le> 2 ^ (bits dt - 1) - 1"
    unfolding b by linarith
  have fl: "of_int multiplier \<le> ?m * 2 ^ ms" "?m * 2 ^ ms < of_int multiplier + 1"
    unfolding mu by linarith+
  have p: "0 < (2::real) powi shift" by (rule powi_two_pos)
  have "real_scale - real_of_int multiplier / 2 ^ ms * 2 powi shift
          = (?m * 2 ^ ms - of_int multiplier) * (2 powi shift / 2 ^ ms)"
    by (subst dp(2)) (simp add: field_simps)
  moreover have "0 \<le> ?m * 2 ^ ms - of_int multiplier" "?m * 2 ^ ms - of_int multiplier < 1"
    using fl by simp_all
  moreover have "0 < 2 powi shift / (2::real) ^ ms"
    using p by simp
  ultimately show "\<bar>real_scale - real_of_int multiplier / 2 ^ (bits dt - 1) * 2 powi shift\<bar>
           < 2 powi shift / 2 ^ (bits dt - 1)"
    unfolding b
    by (smt (verit) mult_less_cancel_right2 mult_nonneg_nonneg less_eq_real_def)
qed

text \<open>An instance, at width 32: \<open>real_scale = 1 / 160\<close>, with mantissa 4/5 and
  exponent -7.\<close>

theorem decompose_multiplier_range_witness:
  "decompose (1 / 160) Int32 = Inr (1717986918, - 7)
   \<and> (2 :: int) ^ 30 \<le> 1717986918 \<and> (1717986918 :: int) \<le> 2 ^ 31 - 1
   \<and> \<bar>1 / 160 - real_of_int 1717986918 / 2 ^ 31 * 2 powi (- 7)\<bar> < 2 powi (- 7) / 2 ^ 31"
proof -
  have p: "(0 :: real) < 1 / 160" and t: "Int32 = Int32 \<or> Int32 = Int16"
    by simp_all
  have d: "decompose (1 / 160) Int32 = Inr (1717986918, - 7)"
    by code_simp
  show ?thesis
    using decompose_multiplier_range [OF p t d] d by simp
qed

subsection \<open>C5\<close>

text \<open>
  \<^bold>\<open>C5.\<close> When the input arrays have \<open>n\<close> elements each and the output array has
  \<open>m \<noteq> n\<close> elements (the decomposition succeeds, output scale not zero), \<open>multiply\<close>
  does not fail with \<open>ShapeMismatchError\<close>: no check precedes the loop. With \<open>n < m\<close> it
  returns normally. With \<open>m < n\<close> it fails with \<open>IndexError\<close>, raised by the write at
  index \<open>m\<close>, after the \<open>m\<close> elements of the output array have all been written.
\<close>

theorem multiply_shape_mismatch:
  fixes tensor1 tensor2 output_tensor :: nat and h :: heap and dt :: dtype
  defines "lhs \<equiv> tensors h tensor1"
    and "rhs \<equiv> tensors h tensor2"
    and "output \<equiv> tensors h output_tensor"
  defines "h' \<equiv> snd (multiply tensor1 tensor2 output_tensor dt h)"
  assumes d: "decompose (scale lhs * scale rhs / scale output) dt = Inr (multiplier, shift)"
    and s: "scale output \<noteq> 0"
    and n: "length (arrays h (value_ref lhs)) = n" "length (arrays h (value_ref rhs)) = n"
    and m: "length (arrays h (value_ref output)) = m"
    and differ: "m \<noteq> n"
  shows "fst (multiply tensor1 tensor2 output_tensor dt h) \<noteq> Some ShapeMismatchError
       \<and> (n < m \<longrightarrow> fst (multiply tensor1 tensor2 output_tensor dt h) = None)
       \<and> (m < n \<longrightarrow>
             fst (multiply tensor1 tensor2 output_tensor dt h) = Some IndexError
           \<and> length (arrays h' (value_ref output)) = m
           \<and> (\<forall>i. i < m \<longrightarrow>
                 arrays h' (value_ref output) ! i
                   = element_value dt multiplier shift (zero_point lhs) (zero_point rhs)
                       (zero_point output) (arrays h (value_ref lhs) ! i)
                       (arrays h (value_ref rhs) ! i)))"
proof -
  have long: "multiply tensor1 tensor2 output_tensor dt h
                = (None, written tensor1 tensor2 output_tensor dt multiplier shift h n)"
    if "n < m"
    using d s n m that unfolding lhs_def rhs_def output_def
    by (intro multiply_completes) simp_all
  have short: "multiply tensor1 tensor2 output_tensor dt h
                 = (Some IndexError, written tensor1 tensor2 output_tensor dt multiplier shift h m)"
    if "m < n"
    using d s n m that unfolding lhs_def rhs_def output_def
    by (intro multiply_short_output_aux) simp_all
  have len: "length (arrays h' (value_ref output)) = m" if "m < n"
    using m unfolding h'_def short [OF that] by (simp add: written_length)
  have val: "arrays h' (value_ref output) ! i
          = element_value dt multiplier shift (zero_point lhs) (zero_point rhs)
              (zero_point output) (arrays h (value_ref lhs) ! i) (arrays h (value_ref rhs) ! i)"
    if "m < n" and "i < m" for i
    using that(2) unfolding h'_def short [OF that(1)] lhs_def rhs_def output_def
    by (simp add: written_nth_lt)
  have "fst (multiply tensor1 tensor2 output_tensor dt h) \<noteq> Some ShapeMismatchError"
    using long short differ by (cases "n < m") simp_all
  then show ?thesis
    using long short len val by simp
qed

text \<open>An instance: two input elements, one output element.\<close>

theorem multiply_shape_mismatch_witness:
  "fst (multiply 0 1 2 Int32 (example_heap (1, 0) (1, 0) (1, 0) [3, 5] [1, - 7] [0]))
     = Some IndexError
   \<and> length (arrays (snd (multiply 0 1 2 Int32
        (example_heap (1, 0) (1, 0) (1, 0) [3, 5] [1, - 7] [0]))) 12) = 1
   \<and> arrays (snd (multiply 0 1 2 Int32
        (example_heap (1, 0) (1, 0) (1, 0) [3, 5] [1, - 7] [0]))) 12 ! 0 = 4"
proof -
  let ?h = "example_heap (1, 0) (1, 0) (1, 0) [3, 5] [1, - 7] [0]"
  have d: "decompose (scale (tensors ?h 0) * scale (tensors ?h 1) / scale (tensors ?h 2)) Int32
             = Inr (1073741824, 1)"
    by code_simp
  have s: "scale (tensors ?h 2) \<noteq> 0"
    and n: "length (arrays ?h (value_ref (tensors ?h 0))) = 2"
      "length (arrays ?h (value_ref (tensors ?h 1))) = 2"
    and m: "length (arrays ?h (value_ref (tensors ?h 2))) = 1"
    by (simp_all add: example_heap_simps)
  have differ: "(1::nat) \<noteq> 2" by simp
  note th = multiply_shape_mismatch [OF d s n m differ]
  have "arrays (snd (multiply 0 1 2 Int32 ?h)) 12 ! 0
          = element_value Int32 1073741824 1 0 0 0 3 1"
    using th by (simp add: example_heap_simps)
  moreover have "element_value Int32 1073741824 1 0 0 0 3 1 = 4"
    by code_simp
  ultimately show ?thesis
    using th by (simp add: example_heap_simps)
qed

text \<open>With input arrays of two elements, an output array of one element is written
  before the call fails with \<open>IndexError\<close>, and an output array of three elements gives
  no error at all.\<close>

theorem shape_mismatch_counterexample:
  "fst (multiply 0 1 2 Int32 (example_heap (1, 0) (1, 0) (1, 0) [3, 5] [1, - 7] [0]))
     = Some IndexError
   \<and> arrays (example_heap (1, 0) (1, 0) (1, 0) [3, 5] [1, - 7] [0]) 12 = [0]
   \<and> arrays (snd (multiply 0 1 2 Int32
        (example_heap (1, 0) (1, 0) (1, 0) [3, 5] [1, - 7] [0]))) 12 = [4]
   \<and> fst (multiply 0 1 2 Int32 (example_heap (1, 0) (1, 0) (1, 0) [3, 5] [1, - 7] [0, 0, 9]))
     = None
   \<and> arrays (snd (multiply 0 1 2 Int32
        (example_heap (1, 0) (1, 0) (1, 0) [3, 5] [1, - 7] [0, 0, 9]))) 12 = [4, - 36, 9]"
  by code_simp

subsection \<open>C6\<close>

text \<open>
  \<^bold>\<open>C6.\<close> When \<open>real_scale = lhs.scale * rhs.scale / output.scale\<close> is less than or
  equal to zero (the decomposition succeeds, output scale not zero, arrays of the same
  size \<open>n\<close>), \<open>multiply\<close> raises no error: the multiplier is less than or equal to zero,
  the call returns normally and the \<open>n\<close> output elements are written.
\<close>

theorem multiply_nonpositive_scale:
  fixes tensor1 tensor2 output_tensor :: nat and h :: heap and dt :: dtype
  defines "lhs \<equiv> tensors h tensor1"
    and "rhs \<equiv> tensors h tensor2"
    and "output \<equiv> tensors h output_tensor"
  defines "h' \<equiv> snd (multiply tensor1 tensor2 output_tensor dt h)"
  assumes d: "decompose (scale lhs * scale rhs / scale output) dt = Inr (multiplier, shift)"
    and s: "scale output \<noteq> 0"
    and nonpos: "scale lhs * scale rhs / scale output \<le> 0"
    and n: "length (arrays h (value_ref lhs)) = n" "length (arrays h (value_ref rhs)) = n"
      "length (arrays h (value_ref output)) = n"
  shows "multiplier \<le> 0
       \<and> fst (multiply tensor1 tensor2 output_tensor dt h) = None
       \<and> length (arrays h' (value_ref output)) = n
       \<and> (\<forall>i. i < n \<longrightarrow>
             arrays h' (value_ref output) ! i
               = element_value dt multiplier shift (zero_point lhs) (zero_point rhs)
                   (zero_point output) (arrays h (value_ref lhs) ! i)
                   (arrays h (value_ref rhs) ! i))"
proof -
  obtain ms where ms: "multiplier_shift dt = Inr ms"
    using decompose_Inr_supported [OF d] by blast
  have "fst (frexp (scale lhs * scale rhs / scale output)) * 2 ^ ms \<le> 0"
    using frexp_nonpositive [OF nonpos] by (simp add: mult_le_0_iff)
  then have "float_to_int (fst (frexp (scale lhs * scale rhs / scale output)) * 2 ^ ms) \<le> 0"
    by (rule float_to_int_nonpositive)
  then have mu: "multiplier \<le> 0"
    using d by (auto simp add: decompose_supported [OF ms])
  have m: "multiply tensor1 tensor2 output_tensor dt h
             = (None, written tensor1 tensor2 output_tensor dt multiplier shift h n)"
    using d s n unfolding lhs_def rhs_def output_def by (intro multiply_completes) simp_all
  have len: "length (arrays h' (value_ref output)) = n"
    using n(3) unfolding h'_def m by (simp add: written_length)
  have "arrays h' (value_ref output) ! i
          = element_value dt multiplier shift (zero_point lhs) (zero_point rhs)
              (zero_point output) (arrays h (value_ref lhs) ! i) (arrays h (value_ref rhs) ! i)"
    if "i < n" for i
    using that unfolding h'_def m lhs_def rhs_def output_def by (simp add: written_nth_lt)
  then show ?thesis
    using mu len by (simp add: m)
qed

text \<open>An instance: \<open>real_scale = -1\<close>, with multiplier \<open>-2^30\<close> and shift 1.\<close>

theorem multiply_nonpositive_scale_witness:
  "decompose (- 1 * 1 / 1) Int32 = Inr (- 1073741824, 1)
   \<and> (- 1073741824 :: int) \<le> 0
   \<and> fst (multiply 0 1 2 Int32 (example_heap (- 1, 0) (1, 0) (1, 0) [4] [3] [0])) = None
   \<and> arrays (snd (multiply 0 1 2 Int32
        (example_heap (- 1, 0) (1, 0) (1, 0) [4] [3] [0]))) 12 ! 0 = - 12"
proof -
  let ?h = "example_heap (- 1, 0) (1, 0) (1, 0) [4] [3] [0]"
  have d: "decompose (scale (tensors ?h 0) * scale (tensors ?h 1) / scale (tensors ?h 2)) Int32
             = Inr (- 1073741824, 1)"
    by code_simp
  have s: "scale (tensors ?h 2) \<noteq> 0"
    and nonpos: "scale (tensors ?h 0) * scale (tensors ?h 1) / scale (tensors ?h 2) \<le> 0"
    and n: "length (arrays ?h (value_ref (tensors ?h 0))) = 1"
      "length (arrays ?h (value_ref (tensors ?h 1))) = 1"
      "length (arrays ?h (value_ref (tensors ?h 2))) = 1"
    by (simp_all add: example_heap_simps)
  have e: "decompose (- 1 * 1 / 1) Int32 = Inr (- 1073741824, 1)"
    by code_simp
  note th = multiply_nonpositive_scale [OF d s nonpos n]
  have "arrays (snd (multiply 0 1 2 Int32 ?h)) 12 ! 0
          = element_value Int32 (- 1073741824) 1 0 0 0 4 3"
    using th by (simp add: example_heap_simps)
  moreover have "element_value Int32 (- 1073741824) 1 0 0 0 4 3 = - 12"
    by code_simp
  ultimately show ?thesis
    using th e by (simp add: example_heap_simps)
qed

text \<open>With \<open>real_scale = -1\<close> and with \<open>real_scale = 0\<close> the call returns normally and
  the output array is written.\<close>

theorem nonpositive_scale_counterexample:
  "scale (tensors (example_heap (- 1, 0) (1, 0) (1, 0) [4] [3] [0]) 0)
     * scale (tensors (example_heap (- 1, 0) (1, 0) (1, 0) [4] [3] [0]) 1)
     / scale (tensors (example_heap (- 1, 0) (1, 0) (1, 0) [4] [3] [0]) 2) = - 1
   \<and> fst (multiply 0 1 2 Int32 (example_heap (- 1, 0) (1, 0) (1, 0) [4] [3] [0])) = None
   \<and> arrays (example_heap (- 1, 0) (1, 0) (1, 0) [4] [3] [0]) 12 = [0]
   \<and> arrays (snd (multiply 0 1 2 Int32
        (example_heap (- 1, 0) (1, 0) (1, 0) [4] [3] [0]))) 12 = [- 12]
   \<and> fst (multiply 0 1 2 Int32 (example_heap (0, 0) (1, 0) (1, 5) [4] [3] [0])) = None
   \<and> arrays (snd (multiply 0 1 2 Int32
        (example_heap (0, 0) (1, 0) (1, 5) [4] [3] [0]))) 12 = [5]"
  by code_simp

subsection \<open>C7\<close>

text \<open>
  \<^bold>\<open>C7.\<close> When \<open>lhs.scale * rhs.scale = output.scale\<close> and the three zero points are 0
  (supported datatype, arrays of the same size, the elements and their product within
  the working width, as 8-bit elements are at both widths), the output element at \<open>i\<close>
  is the clamp to \<open>[-128, 127]\<close> of the product \<open>lhs[i] * rhs[i]\<close> with an odd product
  moved one step away from zero; it differs from the clamped product by at most 1.
\<close>

theorem multiply_identity_scale:
  fixes tensor1 tensor2 output_tensor :: nat and h :: heap and dt :: dtype and i :: nat
  defines "lhs \<equiv> tensors h tensor1"
    and "rhs \<equiv> tensors h tensor2"
    and "output \<equiv> tensors h output_tensor"
  defines "h' \<equiv> snd (multiply tensor1 tensor2 output_tensor dt h)"
    and "l \<equiv> arrays h (value_ref lhs) ! i"
    and "r \<equiv> arrays h (value_ref rhs) ! i"
  assumes dt: "dt = Int32 \<or> dt = Int16"
    and identity: "scale lhs * scale rhs = scale output"
    and s: "scale output \<noteq> 0"
    and z: "zero_point lhs = 0" "zero_point rhs = 0" "zero_point output = 0"
    and n: "length (arrays h (value_ref lhs)) = n" "length (arrays h (value_ref rhs)) = n"
      "length (arrays h (value_ref output)) = n"
    and i: "i < n"
    and fits: "in_range (bits dt) l" "in_range (bits dt) r" "in_range (bits dt) (l * r)"
  shows "fst (multiply tensor1 tensor2 output_tensor dt h) = None
       \<and> arrays h' (value_ref output) ! i
           = min (max (if even (l * r) then l * r else l * r + sgn (l * r)) (- 128)) 127
       \<and> \<bar>arrays h' (value_ref output) ! i - min (max (l * r) (- 128)) 127\<bar> \<le> 1"
proof -
  have one: "scale lhs * scale rhs / scale output = 1"
    using identity s by simp
  have d: "decompose (scale lhs * scale rhs / scale output) dt
                  = Inr (2 ^ (bits dt - 2), 1)"
    unfolding one by (rule decompose_one [OF dt])
  have m: "multiply tensor1 tensor2 output_tensor dt h
             = (None, written tensor1 tensor2 output_tensor dt (2 ^ (bits dt - 2)) 1 h n)"
    using d s n unfolding lhs_def rhs_def output_def by (intro multiply_completes) simp_all
  have "arrays h' (value_ref output) ! i = element_value dt (2 ^ (bits dt - 2)) 1 0 0 0 l r"
    using i z unfolding h'_def m l_def r_def lhs_def rhs_def output_def
    by (simp add: written_nth_lt)
  then have v: "arrays h' (value_ref output) ! i
           = min (max (if even (l * r) then l * r else l * r + sgn (l * r)) (- 128)) 127"
    by (simp only: element_value_identity [OF dt fits])
  have b: "\<bar>min (max (if even t then t else t + sgn t) (- 128)) 127 - min (max t (- 128)) 127\<bar> \<le> 1"
    for t :: int
    by (simp add: sgn_if) linarith
  have f: "fst (multiply tensor1 tensor2 output_tensor dt h) = None"
    by (simp add: m)
  have "\<bar>arrays h' (value_ref output) ! i - min (max (l * r) (- 128)) 127\<bar> \<le> 1"
    unfolding v by (rule b)
  with f v show ?thesis
    by blast
qed

text \<open>An instance, at width 16: scales 1/2, 1/4 and 1/8; the elements 5 and -7 give
  -36, one step from the product -35.\<close>

theorem multiply_identity_scale_witness:
  "fst (multiply 0 1 2 Int16
          (example_heap (1 / 2, 0) (1 / 4, 0) (1 / 8, 0) [3, 5] [1, - 7] [0, 0])) = None
   \<and> arrays (snd (multiply 0 1 2 Int16
          (example_heap (1 / 2, 0) (1 / 4, 0) (1 / 8, 0) [3, 5] [1, - 7] [0, 0]))) 12 ! 1 = - 36
   \<and> \<bar>arrays (snd (multiply 0 1 2 Int16
          (example_heap (1 / 2, 0) (1 / 4, 0) (1 / 8, 0) [3, 5] [1, - 7] [0, 0]))) 12 ! 1
        - min (max (5 * - 7) (- 128)) 127\<bar> \<le> 1"
proof -
  let ?h = "example_heap (1 / 2, 0) (1 / 4, 0) (1 / 8, 0) [3, 5] [1, - 7] [0, 0]"
  have dt: "Int16 = Int32 \<or> Int16 = Int16" by simp
  have identity: "scale (tensors ?h 0) * scale (tensors ?h 1) = scale (tensors ?h 2)"
    and s: "scale (tensors ?h 2) \<noteq> 0"
    and z: "zero_point (tensors ?h 0) = 0" "zero_point (tensors ?h 1) = 0"
      "zero_point (tensors ?h 2) = 0"
    and n: "length (arrays ?h (value_ref (tensors ?h 0))) = 2"
      "length (arrays ?h (value_ref (tensors ?h 1))) = 2"
      "length (arrays ?h (value_ref (tensors ?h 2))) = 2"
    by (simp_all add: example_heap_simps)
  have i: "(1::nat) < 2" by simp
  have fits: "in_range (bits Int16) (arrays ?h (value_ref (tensors ?h 0)) ! 1)"
    "in_range (bits Int16) (arrays ?h (value_ref (tensors ?h 1)) ! 1)"
    "in_range (bits Int16) (arrays ?h (value_ref (tensors ?h 0)) ! 1
                            * arrays ?h (value_ref (tensors ?h 1)) ! 1)"
    by (simp_all add: example_heap_simps in_range_def)
  show ?thesis
    using multiply_identity_scale [OF dt identity s z n i fits]
    by (simp add: example_heap_simps)
qed

subsection \<open>C8\<close>

text \<open>
  \<^bold>\<open>C8.\<close> In a valid invocation (the decomposition succeeds, output scale not zero,
  arrays of the same size \<open>n\<close>), \<open>multiply\<close> returns normally; every tensor object
  keeps its scale, its zero point and its array; every array other than the output
  array is unchanged, so the input arrays are unchanged when they are not the output
  array; the output array keeps its size; and the loop writes it one element at a time
  in index order: after the iterations at the indices below \<open>k\<close>, the first \<open>k\<close>
  positions are written and the others are as on entry.
\<close>

theorem multiply_frame:
  fixes tensor1 tensor2 output_tensor :: nat and h :: heap and dt :: dtype
  defines "lhs \<equiv> tensors h tensor1"
    and "rhs \<equiv> tensors h tensor2"
    and "output \<equiv> tensors h output_tensor"
  defines "h' \<equiv> snd (multiply tensor1 tensor2 output_tensor dt h)"
  assumes d: "decompose (scale lhs * scale rhs / scale output) dt = Inr (multiplier, shift)"
    and s: "scale output \<noteq> 0"
    and n: "length (arrays h (value_ref lhs)) = n" "length (arrays h (value_ref rhs)) = n"
      "length (arrays h (value_ref output)) = n"
  shows "fst (multiply tensor1 tensor2 output_tensor dt h) = None
       \<and> tensors h' = tensors h
       \<and> (\<forall>a. a \<noteq> value_ref output \<longrightarrow> arrays h' a = arrays h a)
       \<and> (value_ref lhs \<noteq> value_ref output \<longrightarrow>
             arrays h' (value_ref lhs) = arrays h (value_ref lhs))
       \<and> (value_ref rhs \<noteq> value_ref output \<longrightarrow>
             arrays h' (value_ref rhs) = arrays h (value_ref rhs))
       \<and> length (arrays h' (value_ref output)) = n
       \<and> (\<forall>k. k \<le> n \<longrightarrow>
             for_each [0..<k]
               (multiply_body tensor1 tensor2 output_tensor dt multiplier shift) h
             = (None, written tensor1 tensor2 output_tensor dt multiplier shift h k))
       \<and> h' = written tensor1 tensor2 output_tensor dt multiplier shift h n"
proof -
  obtain ms where ms: "multiplier_shift dt = Inr ms"
    using decompose_Inr_supported [OF d] by blast
  have m: "multiply tensor1 tensor2 output_tensor dt h
             = (None, written tensor1 tensor2 output_tensor dt multiplier shift h n)"
    using d s n unfolding lhs_def rhs_def output_def by (intro multiply_completes) simp_all
  have h': "h' = written tensor1 tensor2 output_tensor dt multiplier shift h n"
    by (simp add: h'_def m)
  have t: "tensors h' = tensors h"
    by (simp add: h' written_tensors)
  have o: "arrays h' a = arrays h a" if "a \<noteq> value_ref output" for a
    using that unfolding h' output_def by (simp add: written_other)
  have len: "length (arrays h' (value_ref output)) = n"
    using n(3) unfolding h' by (simp add: written_length)
  have pre: "for_each [0..<k] (multiply_body tensor1 tensor2 output_tensor dt multiplier shift) h
               = (None, written tensor1 tensor2 output_tensor dt multiplier shift h k)"
    if "k \<le> n" for k
    using that n unfolding lhs_def rhs_def output_def
    by (intro for_each_prefix [OF ms decompose_in_range [OF d]]) simp_all
  show ?thesis
    using t o len pre h' by (simp add: m)
qed

text \<open>An instance, at width 16, with three separate arrays.\<close>

theorem multiply_frame_witness:
  "fst (multiply 0 1 2 Int16
          (example_heap (3 / 64, 2) (1 / 128, 0) (1 / 16, - 36) [100, - 50] [- 90, 127] [0, 0]))
     = None
   \<and> tensors (snd (multiply 0 1 2 Int16
          (example_heap (3 / 64, 2) (1 / 128, 0) (1 / 16, - 36) [100, - 50] [- 90, 127] [0, 0])))
     = tensors (example_heap (3 / 64, 2) (1 / 128, 0) (1 / 16, - 36) [100, - 50] [- 90, 127] [0, 0])
   \<and> arrays (snd (multiply 0 1 2 Int16
          (example_heap (3 / 64, 2) (1 / 128, 0) (1 / 16, - 36) [100, - 50] [- 90, 127] [0, 0])))
        10 = [100, - 50]
   \<and> arrays (snd (multiply 0 1 2 Int16
          (example_heap (3 / 64, 2) (1 / 128, 0) (1 / 16, - 36) [100, - 50] [- 90, 127] [0, 0])))
        11 = [- 90, 127]
   \<and> length (arrays (snd (multiply 0 1 2 Int16
          (example_heap (3 / 64, 2) (1 / 128, 0) (1 / 16, - 36) [100, - 50] [- 90, 127] [0, 0])))
        12) = 2"
proof -
  let ?h = "example_heap (3 / 64, 2) (1 / 128, 0) (1 / 16, - 36) [100, - 50] [- 90, 127] [0, 0]"
  have d: "decompose (scale (tensors ?h 0) * scale (tensors ?h 1) / scale (tensors ?h 2)) Int16
             = Inr (24576, - 7)"
    by code_simp
  have s: "scale (tensors ?h 2) \<noteq> 0"
    and n: "length (arrays ?h (value_ref (tensors ?h 0))) = 2"
      "length (arrays ?h (value_ref (tensors ?h 1))) = 2"
      "length (arrays ?h (value_ref (tensors ?h 2))) = 2"
    by (simp_all add: example_heap_simps)
  show ?thesis
    using multiply_frame [OF d s n]
    by (simp (no_asm_use) add: example_heap_simps) blast
qed

subsection \<open>C9\<close>

text \<open>
  \<^bold>\<open>C9.\<close> When the input arrays have \<open>n\<close> elements each and the output array has more
  than \<open>n\<close> (the decomposition succeeds, output scale not zero), \<open>multiply\<close> returns
  normally, the output array keeps its size, its first \<open>n\<close> positions hold the computed
  values, and every position from \<open>n\<close> on is unchanged.
\<close>

theorem multiply_longer_output:
  fixes tensor1 tensor2 output_tensor :: nat and h :: heap and dt :: dtype
  defines "lhs \<equiv> tensors h tensor1"
    and "rhs \<equiv> tensors h tensor2"
    and "output \<equiv> tensors h output_tensor"
  defines "h' \<equiv> snd (multiply tensor1 tensor2 output_tensor dt h)"
  assumes d: "decompose (scale lhs * scale rhs / scale output) dt = Inr (multiplier, shift)"
    and s: "scale output \<noteq> 0"
    and n: "length (arrays h (value_ref lhs)) = n" "length (arrays h (value_ref rhs)) = n"
    and longer: "n < length (arrays h (value_ref output))"
  shows "fst (multiply tensor1 tensor2 output_tensor dt h) = None
       \<and> length (arrays h' (value_ref output)) = length (arrays h (value_ref output))
       \<and> (\<forall>i. i < n \<longrightarrow>
             arrays h' (value_ref output) ! i
               = element_value dt multiplier shift (zero_point lhs) (zero_point rhs)
                   (zero_point output) (arrays h (value_ref lhs) ! i)
                   (arrays h (value_ref rhs) ! i))
       \<and> (\<forall>i. n \<le> i \<and> i < length (arrays h (value_ref output)) \<longrightarrow>
             arrays h' (value_ref output) ! i = arrays h (value_ref output) ! i)"
proof -
  have m: "multiply tensor1 tensor2 output_tensor dt h
             = (None, written tensor1 tensor2 output_tensor dt multiplier shift h n)"
    using d s n longer unfolding lhs_def rhs_def output_def
    by (intro multiply_completes) simp_all
  have "length (arrays h' (value_ref output)) = length (arrays h (value_ref output))"
    using longer unfolding h'_def m by (simp add: written_length)
  moreover have "arrays h' (value_ref output) ! i
          = element_value dt multiplier shift (zero_point lhs) (zero_point rhs)
              (zero_point output) (arrays h (value_ref lhs) ! i) (arrays h (value_ref rhs) ! i)"
    if "i < n" for i
    using that unfolding h'_def m lhs_def rhs_def output_def by (simp add: written_nth_lt)
  moreover have "arrays h' (value_ref output) ! i = arrays h (value_ref output) ! i"
    if "n \<le> i" and "i < length (arrays h (value_ref output))" for i
    using that unfolding h'_def m by (simp add: written_nth_ge)
  ultimately show ?thesis
    by (simp add: m)
qed

text \<open>An instance: two input elements, three output elements; the third keeps its
  value 9.\<close>

theorem multiply_longer_output_witness:
  "fst (multiply 0 1 2 Int32 (example_heap (1, 0) (1, 0) (1, 0) [3, 5] [1, - 7] [0, 0, 9]))
     = None
   \<and> length (arrays (snd (multiply 0 1 2 Int32
        (example_heap (1, 0) (1, 0) (1, 0) [3, 5] [1, - 7] [0, 0, 9]))) 12) = 3
   \<and> arrays (snd (multiply 0 1 2 Int32
        (example_heap (1, 0) (1, 0) (1, 0) [3, 5] [1, - 7] [0, 0, 9]))) 12 ! 1 = - 36
   \<and> arrays (snd (multiply 0 1 2 Int32
        (example_heap (1, 0) (1, 0) (1, 0) [3, 5] [1, - 7] [0, 0, 9]))) 12 ! 2 = 9"
proof -
  let ?h = "example_heap (1, 0) (1, 0) (1, 0) [3, 5] [1, - 7] [0, 0, 9]"
  have d: "decompose (scale (tensors ?h 0) * scale (tensors ?h 1) / scale (tensors ?h 2)) Int32
             = Inr (1073741824, 1)"
    by code_simp
  have s: "scale (tensors ?h 2) \<noteq> 0"
    and n: "length (arrays ?h (value_ref (tensors ?h 0))) = 2"
      "length (arrays ?h (value_ref (tensors ?h 1))) = 2"
    and longer: "2 < length (arrays ?h (value_ref (tensors ?h 2)))"
    by (simp_all add: example_heap_simps)
  note th = multiply_longer_output [OF d s n longer]
  have "arrays (snd (multiply 0 1 2 Int32 ?h)) 12 ! 1
          = element_value Int32 1073741824 1 0 0 0 5 (- 7)"
    using th by (simp add: example_heap_simps)
  moreover have "element_value Int32 1073741824 1 0 0 0 5 (- 7) = - 36"
    by code_simp
  moreover have "arrays (snd (multiply 0 1 2 Int32 ?h)) 12 ! 2 = 9"
    using th by (simp add: example_heap_simps)
  ultimately show ?thesis
    using th by (simp add: example_heap_simps)
qed

subsection \<open>C10\<close>

text \<open>
  \<^bold>\<open>C10.\<close> With a datatype other than \<open>np.int32\<close> and \<open>np.int16\<close>, \<open>multiply\<close>
  fails with \<open>AssertionError\<close> and leaves the heap, so every element of the output
  array, unchanged. The assertion comes after the computation of \<open>real_scale\<close>: with an
  output scale of zero the division fails first.
\<close>

theorem multiply_unsupported_datatype:
  assumes "dt \<noteq> Int32" and "dt \<noteq> Int16"
  shows "snd (multiply tensor1 tensor2 output_tensor dt h) = h
       \<and> (scale (tensors h output_tensor) \<noteq> 0 \<longrightarrow>
            fst (multiply tensor1 tensor2 output_tensor dt h) = Some AssertionError)
       \<and> (scale (tensors h output_tensor) = 0 \<longrightarrow>
            fst (multiply tensor1 tensor2 output_tensor dt h) = Some ZeroDivisionError)"
proof -
  have "dt = OtherType" using assms by (cases dt) simp_all
  then have "decompose x dt = Inl AssertionError" for x
    by (simp add: decompose_def split: prod.splits)
  then show ?thesis
    by (simp add: multiply_def)
qed

text \<open>Two instances: an output scale of 1, and an output scale of 0.\<close>

theorem multiply_unsupported_datatype_witness:
  "snd (multiply 0 1 2 OtherType (example_heap (1, 0) (1, 0) (1, 0) [3, 5] [1, - 7] [0, 0]))
     = example_heap (1, 0) (1, 0) (1, 0) [3, 5] [1, - 7] [0, 0]
   \<and> fst (multiply 0 1 2 OtherType (example_heap (1, 0) (1, 0) (1, 0) [3, 5] [1, - 7] [0, 0]))
     = Some AssertionError
   \<and> fst (multiply 0 1 2 OtherType (example_heap (1, 0) (1, 0) (0, 0) [3, 5] [1, - 7] [0, 0]))
     = Some ZeroDivisionError"
proof -
  have dt: "OtherType \<noteq> Int32" "OtherType \<noteq> Int16" by simp_all
  show ?thesis
    using multiply_unsupported_datatype [OF dt, of 0 1 2
        "example_heap (1, 0) (1, 0) (1, 0) [3, 5] [1, - 7] [0, 0]"]
      multiply_unsupported_datatype [OF dt, of 0 1 2
        "example_heap (1, 0) (1, 0) (0, 0) [3, 5] [1, - 7] [0, 0]"]
    by (simp add: example_heap_simps)
qed

end
